theory Spec2Isabelle
  imports Complex_Main
begin

section \<open>Data model of \<open>helper.py\<close> (class \<open>MoveGroupHelper\<close>)\<close>

text \<open>
  Python floats are idealised as reals: every coordinate, scaling factor and
  clock reading is a \<^typ>\<open>real\<close>, and \<open>+\<close> is exact. The messages of
  \<open>geometry_msgs\<close>, \<open>shape_msgs\<close> and \<open>moveit_msgs\<close> become records with the
  fields that \<open>helper.py\<close> reads or writes.
\<close>

record point =
  px :: real
  py :: real
  pz :: real

record quaternion =
  qx :: real
  qy :: real
  qz :: real
  qw :: real

record pose =
  position :: point
  orientation :: quaternion

record pose_stamped =
  frame_id :: string
  pose_of :: pose

record solid_primitive =
  prim_type :: nat
  dimensions :: "real list"

record orientation_constraint =
  oc_link_name :: string
  oc_frame_id :: string
  oc_orientation :: quaternion
  absolute_x_axis_tolerance :: real
  absolute_y_axis_tolerance :: real
  absolute_z_axis_tolerance :: real
  oc_weight :: real

record position_constraint =
  pc_link_name :: string
  pc_frame_id :: string
  target_point_offset :: point
  constraint_region_primitives :: "solid_primitive list"

record constraints =
  orientation_constraints :: "orientation_constraint list"
  position_constraints :: "position_constraint list"

datatype plan = Plan "pose list"

text \<open>
  Every call that \<open>helper.py\<close> makes on the planning scene (through
  \<open>self.planning_scene\<close> or the inherited \<open>self.scene\<close>, two handles on the one
  planning scene of the robot) and every planning request on the move group is
  recorded, in order, in a call log.
\<close>

datatype call =
    AddCylinder string pose_stamped real real
  | AddMesh string pose_stamped string
  | RemoveAttachedObject string
  | RemoveWorldObject string
  | GetKnownObjectNames
  | PlanRequest
  | ComputeCartesianPath "pose list" real real "constraints option"

datatype error = AttributeError

text \<open>
  The state that the methods read and write. \<open>clock\<close> is the wall clock;
  \<open>link_pose\<close> is the robot's current pose per link (the empty name is the end
  effector, as in \<open>get_current_pose()\<close>); \<open>path_constraints\<close> and the two scaling
  factors are the settings held by the move group; the remaining fields are
  attributes of \<open>self\<close>. An attribute that \<open>__init__\<close> does not assign is
  optional: \<open>cartesian_constraints = None\<close> means that the attribute does not
  exist, \<open>Some None\<close> that it holds Python's \<open>None\<close>.
\<close>

record world =
  clock :: real
  calls :: "call list"
  link_pose :: "string \<Rightarrow> pose"
  path_constraints :: "constraints option"
  max_velocity_scaling_factor :: real
  max_acceleration_scaling_factor :: real
  cartesian_constraints :: "constraints option option"
  cylinder_pose :: pose_stamped
  start_pose :: pose

text \<open>
  What the code cannot decide is supplied by an environment: the names that the
  planning scene reports as known (given the calls issued so far and the time of
  the query), whether ROS is shut down at a given time, by how much a sleep
  started at a given time oversleeps, the package path given by \<open>rospkg\<close>, and
  the Cartesian planner of MoveIt.
\<close>

record env =
  known_object_names :: "call list \<Rightarrow> real \<Rightarrow> string list"
  shutdown_at :: "real \<Rightarrow> bool"
  oversleep :: "real \<Rightarrow> real"
  package_path :: string
  cartesian_planner :: "pose \<Rightarrow> pose list \<Rightarrow> real \<Rightarrow> real \<Rightarrow> constraints option \<Rightarrow> plan \<times> real"

definition cylinder_name :: string where
  "cylinder_name = ''full_cylinder''"

definition hollow_cylinder_name :: string where
  "hollow_cylinder_name = ''hollow_cylinder''"

definition cylinder_height :: real where
  "cylinder_height = 8 / 100"

definition cylinder_radius :: real where
  "cylinder_radius = 4 / 100"

section \<open>The clock and the scene-convergence wait\<close>

definition log_call :: "call \<Rightarrow> world \<Rightarrow> world" where
  "log_call c w = w\<lparr>calls := calls w @ [c]\<rparr>"

definition get_time :: "world \<Rightarrow> real" where
  "get_time w = clock w"

text \<open>
  \<open>rospy.sleep(d)\<close> and \<open>time.sleep(d)\<close> on the wall clock return after at least
  \<open>d\<close> seconds: the clock advances by \<open>d\<close> plus a non-negative oversleep.
\<close>

definition sleep :: "env \<Rightarrow> real \<Rightarrow> world \<Rightarrow> world" where
  "sleep e d w = w\<lparr>clock := clock w + d + \<bar>oversleep e (clock w)\<bar>\<rparr>"

definition is_shutdown :: "env \<Rightarrow> world \<Rightarrow> bool" where
  "is_shutdown e w = shutdown_at e (clock w)"

text \<open>
  One pass through the body of the polling loop that does not return: the
  membership query followed by \<open>rospy.sleep(0.1)\<close>.
\<close>

definition poll_step :: "env \<Rightarrow> world \<Rightarrow> world" where
  "poll_step e w = sleep e (1 / 10) (log_call GetKnownObjectNames w)"

text \<open>
  The loop of \<open>__wait_for_state_update\<close>. No time passes between a sleep and
  the clock reading after it, so the variable \<open>seconds\<close> of the source is
  \<open>get_time w\<close> at the head of the loop.
\<close>

function wait_loop :: "env \<Rightarrow> string \<Rightarrow> bool \<Rightarrow> real \<Rightarrow> real \<Rightarrow> world \<Rightarrow> bool \<times> world" where
  "wait_loop e name cylinder_is_known timeout start w =
     (if get_time w - start < timeout \<and> \<not> is_shutdown e w then
        (let is_known = name \<in> set (known_object_names e (calls w) (clock w));
             w1 = log_call GetKnownObjectNames w
         in if cylinder_is_known = is_known then (True, w1)
            else wait_loop e name cylinder_is_known timeout start (sleep e (1 / 10) w1))
      else (False, w))"
  by pat_completeness auto
termination
proof (relation "measure (\<lambda>(e, name, k, timeout, start, w). nat \<lceil>(timeout - (clock w - start)) * 10\<rceil>)")
  show "wf (measure (\<lambda>(e, name, k, timeout, start, w). nat \<lceil>(timeout - (clock w - start)) * 10\<rceil>))"
    by simp
next
  fix e :: env and name :: string and cylinder_is_known :: bool
    and timeout start :: real and w :: world and is_known :: bool and w1 :: world
  assume guard: "get_time w - start < timeout \<and> \<not> is_shutdown e w"
    and w1: "w1 = log_call GetKnownObjectNames w"
  let ?a = "(timeout - (clock w - start)) * 10"
  let ?b = "(timeout - (clock (sleep e (1 / 10) w1) - start)) * 10"
  have pos: "0 < ?a" using guard by (simp add: get_time_def)
  have "clock (sleep e (1 / 10) w1) \<ge> clock w + 1 / 10"
    by (simp add: sleep_def w1 log_call_def)
  then have "?b \<le> ?a - 1" by simp
  then have "\<lceil>?b\<rceil> \<le> \<lceil>?a\<rceil> - 1"
    by (metis ceiling_diff_one ceiling_mono)
  moreover have "0 < \<lceil>?a\<rceil>" using pos by simp
  ultimately have "nat \<lceil>?b\<rceil> < nat \<lceil>?a\<rceil>" by linarith
  then show "((e, name, cylinder_is_known, timeout, start, sleep e (1 / 10) w1),
              (e, name, cylinder_is_known, timeout, start, w))
             \<in> measure (\<lambda>(e, name, k, timeout, start, w). nat \<lceil>(timeout - (clock w - start)) * 10\<rceil>)"
    by simp
qed

declare wait_loop.simps [simp del]

definition wait_for_state_update :: "env \<Rightarrow> string \<Rightarrow> bool \<Rightarrow> real \<Rightarrow> world \<Rightarrow> bool \<times> world" where
  "wait_for_state_update e name cylinder_is_known timeout w =
     wait_loop e name cylinder_is_known timeout (get_time w) w"

text \<open>
  The schedule of the polls: \<open>poll_world e w k\<close> is the state in which the
  \<open>k\<close>-th membership query (counting from 0) is made if the loop gets that far.
\<close>

fun poll_world :: "env \<Rightarrow> world \<Rightarrow> nat \<Rightarrow> world" where
  "poll_world e w 0 = w"
| "poll_world e w (Suc k) = poll_world e (poll_step e w) k"

definition observed :: "env \<Rightarrow> string \<Rightarrow> bool \<Rightarrow> world \<Rightarrow> bool" where
  "observed e name cylinder_is_known w =
     (cylinder_is_known = (name \<in> set (known_object_names e (calls w) (clock w))))"

text \<open>
  \<open>reached e timeout start w k\<close>: started in \<open>w\<close>, the loop passes its guard
  (time left and no shutdown) at each of the polls \<open>0\<close> to \<open>k\<close>.
\<close>

fun reached :: "env \<Rightarrow> real \<Rightarrow> real \<Rightarrow> world \<Rightarrow> nat \<Rightarrow> bool" where
  "reached e timeout start w 0 = (get_time w - start < timeout \<and> \<not> is_shutdown e w)"
| "reached e timeout start w (Suc k) =
     (get_time w - start < timeout \<and> \<not> is_shutdown e w \<and>
      reached e timeout start (poll_step e w) k)"

section \<open>Orientation and position constraints\<close>

text \<open>
  \<open>quaternion_multiply\<close> is the function of \<open>tf.transformations\<close>, the Hamilton
  product of two quaternions given as \<open>(x, y, z, w)\<close>; its formula is the
  library's.
\<close>

fun quaternion_multiply :: "real list \<Rightarrow> real list \<Rightarrow> real list" where
  "quaternion_multiply [x1, y1, z1, w1] [x0, y0, z0, w0] =
     [  x1 * w0 + y1 * z0 - z1 * y0 + w1 * x0,
      - x1 * z0 + y1 * w0 + z1 * x0 + w1 * y0,
        x1 * y0 - y1 * x0 + z1 * w0 + w1 * z0,
      - x1 * x0 - y1 * y0 - z1 * z0 + w1 * w0]"
| "quaternion_multiply _ _ = []"

definition get_current_pose :: "world \<Rightarrow> string \<Rightarrow> pose" where
  "get_current_pose w link = link_pose w link"

definition get_relative_orientation :: "world \<Rightarrow> string \<Rightarrow> string \<Rightarrow> quaternion" where
  "get_relative_orientation w target_link_name reference_link_name =
     (let reference_orientation = orientation (get_current_pose w target_link_name);
          reference_orientation_inverted =
            [qx reference_orientation, qy reference_orientation,
             qz reference_orientation, - qw reference_orientation];
          target_orientation_msg = orientation (get_current_pose w reference_link_name);
          target_orientation =
            [qx target_orientation_msg, qy target_orientation_msg,
             qz target_orientation_msg, qw target_orientation_msg];
          relative_orientation =
            quaternion_multiply reference_orientation_inverted target_orientation
      in \<lparr>qx = relative_orientation ! 0, qy = relative_orientation ! 1,
          qz = relative_orientation ! 2, qw = relative_orientation ! 3\<rparr>)"

definition get_orientation_constraints :: "world \<Rightarrow> orientation_constraint" where
  "get_orientation_constraints w =
     \<lparr>oc_link_name = ''axis_6'', oc_frame_id = ''axis_0'',
      oc_orientation = get_relative_orientation w ''axis_6'' ''axis_0'',
      absolute_x_axis_tolerance = 1 / 10,
      absolute_y_axis_tolerance = 1 / 10,
      absolute_z_axis_tolerance = 1 / 10,
      oc_weight = 1\<rparr>"

text \<open>The constants of \<open>shape_msgs/SolidPrimitive\<close>.\<close>

definition CYLINDER :: nat where
  "CYLINDER = 3"

definition CYLINDER_HEIGHT :: nat where
  "CYLINDER_HEIGHT = 0"

definition CYLINDER_RADIUS :: nat where
  "CYLINDER_RADIUS = 1"

definition get_position_constraints :: "position_constraint" where
  "get_position_constraints =
     (let bounding_region =
            \<lparr>prim_type = CYLINDER,
             dimensions = ([0, 0])[CYLINDER_HEIGHT := 1, CYLINDER_RADIUS := 1 / 100]\<rparr>
      in \<lparr>pc_link_name = ''axis_6'', pc_frame_id = ''axis_0'',
          target_point_offset = \<lparr>px = 0, py = 0, pz = 1 / 2\<rparr>,
          constraint_region_primitives = [] @ [bounding_region]\<rparr>)"

definition apply_constraints :: "world \<Rightarrow> world" where
  "apply_constraints w =
     (let orientation_constraint = get_orientation_constraints w;
          position_constraint = get_position_constraints;
          constraints =
            \<lparr>orientation_constraints = [] @ [orientation_constraint],
             position_constraints = [] @ [position_constraint]\<rparr>
      in w\<lparr>path_constraints := Some constraints,
           cartesian_constraints := Some (Some constraints)\<rparr>)"

definition clear_constraints :: "world \<Rightarrow> world" where
  "clear_constraints w = w\<lparr>cartesian_constraints := Some None, path_constraints := None\<rparr>"

section \<open>Scene operations\<close>

definition add_cylinder :: "env \<Rightarrow> real \<Rightarrow> world \<Rightarrow> bool \<times> world" where
  "add_cylinder e timeout w =
     wait_for_state_update e cylinder_name True timeout
       (log_call (AddCylinder cylinder_name (cylinder_pose w) cylinder_height cylinder_radius) w)"

definition remove_cylinder :: "env \<Rightarrow> real \<Rightarrow> world \<Rightarrow> bool \<times> world" where
  "remove_cylinder e timeout w =
     (let w1 = snd (wait_for_state_update e cylinder_name True timeout w);
          w2 = log_call (RemoveAttachedObject cylinder_name) w1;
          w3 = log_call (RemoveWorldObject cylinder_name) w2
      in wait_for_state_update e cylinder_name False timeout w3)"

text \<open>\<open>os.path.join\<close> of a directory and a relative path.\<close>

definition path_join :: "string \<Rightarrow> string \<Rightarrow> string" where
  "path_join a b = (if a = [] \<or> last a = CHR ''/'' then a @ b else a @ ''/'' @ b)"

text \<open>
  Lines 285 to 287 of \<open>__add_hollow_cylinder\<close>: the pose of the mesh (a copy of
  the cylinder's pose, lowered by 0.035) and the file of the mesh.
\<close>

definition hollow_cylinder_pose :: "world \<Rightarrow> pose_stamped" where
  "hollow_cylinder_pose w =
     (let cp = cylinder_pose w
      in cp\<lparr>pose_of := (pose_of cp)\<lparr>position := (position (pose_of cp))
              \<lparr>pz := pz (position (pose_of cp)) - 35 / 1000\<rparr>\<rparr>\<rparr>)"

definition hollow_cylinder_filename :: "env \<Rightarrow> string" where
  "hollow_cylinder_filename e = path_join (package_path e) ''stl/hollow_cylinder.stl''"

definition add_hollow_cylinder :: "env \<Rightarrow> world \<Rightarrow> world" where
  "add_hollow_cylinder e w =
     (let cp = hollow_cylinder_pose w;
          filename = hollow_cylinder_filename e;
          w1 = log_call (AddMesh hollow_cylinder_name cp filename) w
      in snd (wait_for_state_update e hollow_cylinder_name True 4 w1))"

definition remove_hollow_cylinder :: "env \<Rightarrow> world \<Rightarrow> bool \<times> world" where
  "remove_hollow_cylinder e w =
     (let w1 = log_call (RemoveWorldObject hollow_cylinder_name) w;
          w2 = snd (wait_for_state_update e hollow_cylinder_name False 4 w1)
      in wait_for_state_update e cylinder_name False 4 w2)"

section \<open>The probing sequence\<close>

definition set_max_velocity_scaling_factor :: "real \<Rightarrow> world \<Rightarrow> world" where
  "set_max_velocity_scaling_factor v w = w\<lparr>max_velocity_scaling_factor := v\<rparr>"

definition set_max_acceleration_scaling_factor :: "real \<Rightarrow> world \<Rightarrow> world" where
  "set_max_acceleration_scaling_factor a w = w\<lparr>max_acceleration_scaling_factor := a\<rparr>"

definition enable_probing :: "env \<Rightarrow> world \<Rightarrow> world" where
  "enable_probing e w =
     (let w1 = apply_constraints w;
          w2 = add_hollow_cylinder e w1;
          w3 = snd (remove_cylinder e 4 w2);
          w4 = set_max_velocity_scaling_factor (1 / 100) w3
      in set_max_acceleration_scaling_factor (1 / 10) w4)"

definition disable_probing :: "env \<Rightarrow> world \<Rightarrow> world" where
  "disable_probing e w =
     (let w1 = snd (add_cylinder e 10 w);
          w2 = snd (remove_hollow_cylinder e w1);
          w3 = clear_constraints w2;
          w4 = set_max_velocity_scaling_factor (8 / 10) w3
      in set_max_acceleration_scaling_factor 1 w4)"

text \<open>
  Lines 233 to 243 of \<open>plan_probing\<close>: the waypoint list, one copy of the
  current end-effector pose with \<open>z\<close> added to its height.
\<close>

definition probing_waypoints :: "world \<Rightarrow> real \<Rightarrow> pose list" where
  "probing_waypoints w z =
     (let waypoints = [];
          wpose = get_current_pose w [];
          wpose = wpose\<lparr>position := (position wpose)\<lparr>pz := pz (position wpose) + z\<rparr>\<rparr>
      in waypoints @ [wpose])"

text \<open>
  \<open>plan_probing\<close> reads \<open>self.cartesian_constraints\<close> while it evaluates the
  arguments of \<open>compute_cartesian_path\<close>: where the attribute does not exist,
  Python raises \<open>AttributeError\<close> and the call is not made.
\<close>

definition plan_probing :: "env \<Rightarrow> real \<Rightarrow> world \<Rightarrow> (error + plan \<times> real) \<times> world" where
  "plan_probing e z w =
     (let waypoints = probing_waypoints w z;
          w1 = log_call PlanRequest w
      in case cartesian_constraints w1 of
           None \<Rightarrow> (Inl AttributeError, w1)
         | Some c \<Rightarrow>
             (Inr (cartesian_planner e (get_current_pose w1 []) waypoints (1 / 100) 0 c),
              log_call (ComputeCartesianPath waypoints (1 / 100) 0 c) w1))"

text \<open>
  The constructor, from the state \<open>w\<close> that \<open>helpy.__init__\<close> leaves: it sets the
  cylinder's pose, sleeps five seconds, saves the start pose and adds the
  cylinder. Its other assignments are handles (\<open>planning_scene\<close>, \<open>rospack\<close>,
  the planning frame, the end-effector link) and the constants above; there is
  none to \<open>cartesian_constraints\<close>.
\<close>

definition init :: "env \<Rightarrow> world \<Rightarrow> world" where
  "init e w =
     (let w1 = w\<lparr>cylinder_pose :=
                  \<lparr>frame_id = ''world'',
                   pose_of = \<lparr>position = \<lparr>px = 3 / 10, py = 0, pz = 35 / 1000\<rparr>,
                             orientation = \<lparr>qx = 0, qy = 0, qz = 0, qw = 1\<rparr>\<rparr>\<rparr>\<rparr>;
          w2 = sleep e 5 w1;
          w3 = w2\<lparr>start_pose := get_current_pose w2 []\<rparr>
      in snd (add_cylinder e 10 w3))"

section \<open>Concrete environments and states\<close>

text \<open>
  The calls that change the planning scene, and the scene that a planning scene
  applying every call at once would report.
\<close>

fun scene_change :: "call \<Rightarrow> bool" where
  "scene_change (AddCylinder _ _ _ _) = True"
| "scene_change (AddMesh _ _ _) = True"
| "scene_change (RemoveAttachedObject _) = True"
| "scene_change (RemoveWorldObject _) = True"
| "scene_change _ = False"

fun apply_call :: "call \<Rightarrow> string list \<Rightarrow> string list" where
  "apply_call (AddCylinder n _ _ _) names = n # removeAll n names"
| "apply_call (AddMesh n _ _) names = n # removeAll n names"
| "apply_call (RemoveWorldObject n) names = removeAll n names"
| "apply_call _ names = names"

definition scene_of :: "call list \<Rightarrow> string list" where
  "scene_of cs = fold apply_call cs []"

definition identity_quaternion :: quaternion where
  "identity_quaternion = \<lparr>qx = 0, qy = 0, qz = 0, qw = 1\<rparr>"

definition demo_pose :: pose where
  "demo_pose = \<lparr>position = \<lparr>px = 1 / 4, py = 0, pz = 3 / 10\<rparr>,
                orientation = identity_quaternion\<rparr>"

definition straight_planner :: "pose \<Rightarrow> pose list \<Rightarrow> real \<Rightarrow> real \<Rightarrow> constraints option \<Rightarrow> plan \<times> real" where
  "straight_planner p waypoints eef_step jump_threshold c = (Plan (p # waypoints), 1)"

text \<open>A planning scene that reflects every call at once; sleeps are exact.\<close>

definition prompt_env :: env where
  "prompt_env =
     \<lparr>known_object_names = (\<lambda>cs t. scene_of cs),
      shutdown_at = (\<lambda>t. False),
      oversleep = (\<lambda>t. 0),
      package_path = ''/opt/ros/messtechnik_praktikum'',
      cartesian_planner = straight_planner\<rparr>"

text \<open>
  A planning scene that reports the same names whatever is asked of it, on a
  machine where every sleep takes ten seconds longer than requested.
\<close>

definition stuck_env :: "string list \<Rightarrow> env" where
  "stuck_env names =
     \<lparr>known_object_names = (\<lambda>cs t. names),
      shutdown_at = (\<lambda>t. False),
      oversleep = (\<lambda>t. 10),
      package_path = ''/opt/ros/messtechnik_praktikum'',
      cartesian_planner = straight_planner\<rparr>"

text \<open>
  A state as \<open>helpy.__init__\<close> may leave it: every link at \<open>demo_pose\<close>, no path
  constraints, both scaling factors one half, and no attribute
  \<open>cartesian_constraints\<close>.
\<close>

definition base_world :: world where
  "base_world =
     \<lparr>clock = 0, calls = [], link_pose = (\<lambda>l. demo_pose), path_constraints = None,
      max_velocity_scaling_factor = 1 / 2, max_acceleration_scaling_factor = 1 / 2,
      cartesian_constraints = None,
      cylinder_pose = \<lparr>frame_id = [], pose_of = demo_pose\<rparr>,
      start_pose = demo_pose\<rparr>"

section \<open>Properties of the scene-convergence wait\<close>

lemma wait_loop_stop:
  assumes "\<not> (get_time w - start < timeout \<and> \<not> is_shutdown e w)"
  shows "wait_loop e name b timeout start w = (False, w)"
  by (subst wait_loop.simps) (simp only: assms if_False simp_thms)

lemma wait_loop_found:
  assumes "get_time w - start < timeout \<and> \<not> is_shutdown e w"
    and "b = (name \<in> set (known_object_names e (calls w) (clock w)))"
  shows "wait_loop e name b timeout start w = (True, log_call GetKnownObjectNames w)"
  by (subst wait_loop.simps) (simp only: assms if_True Let_def simp_thms)

lemma wait_loop_again:
  assumes "get_time w - start < timeout \<and> \<not> is_shutdown e w"
    and "b \<noteq> (name \<in> set (known_object_names e (calls w) (clock w)))"
  shows "wait_loop e name b timeout start w = wait_loop e name b timeout start (poll_step e w)"
  by (subst wait_loop.simps) (simp only: assms if_True if_False Let_def poll_step_def simp_thms)

text \<open>
  The wait changes nothing but the clock, and adds nothing to the call log but
  membership queries.
\<close>

lemma wait_loop_frame:
  "\<exists>k c. snd (wait_loop e name b timeout start w) =
     w\<lparr>clock := c, calls := calls w @ replicate k GetKnownObjectNames\<rparr>"
proof (induction e name b timeout start w rule: wait_loop.induct)
  case (1 e name b timeout start w)
  show ?case
  proof (cases "get_time w - start < timeout \<and> \<not> is_shutdown e w")
    case False
    then have "snd (wait_loop e name b timeout start w) =
        w\<lparr>clock := clock w, calls := calls w @ replicate 0 GetKnownObjectNames\<rparr>"
      by (simp add: wait_loop_stop)
    then show ?thesis by blast
  next
    case guard: True
    show ?thesis
    proof (cases "b = (name \<in> set (known_object_names e (calls w) (clock w)))")
      case True
      with guard have "snd (wait_loop e name b timeout start w) =
          w\<lparr>clock := clock w, calls := calls w @ replicate 1 GetKnownObjectNames\<rparr>"
        by (simp add: wait_loop_found log_call_def)
      then show ?thesis by blast
    next
      case False
      with guard have eq: "wait_loop e name b timeout start w =
          wait_loop e name b timeout start (poll_step e w)"
        by (simp add: wait_loop_again)
      from "1.IH" [OF guard refl refl False]
      obtain k c where "snd (wait_loop e name b timeout start (poll_step e w)) =
          (poll_step e w)\<lparr>clock := c,
             calls := calls (poll_step e w) @ replicate k GetKnownObjectNames\<rparr>"
        unfolding poll_step_def by blast
      then have "snd (wait_loop e name b timeout start w) =
          w\<lparr>clock := c, calls := calls w @ replicate (Suc k) GetKnownObjectNames\<rparr>"
        by (simp add: eq poll_step_def sleep_def log_call_def)
      then show ?thesis by blast
    qed
  qed
qed

lemma wait_frame:
  "\<exists>k c. snd (wait_for_state_update e name b timeout w) =
     w\<lparr>clock := c, calls := calls w @ replicate k GetKnownObjectNames\<rparr>"
  unfolding wait_for_state_update_def by (rule wait_loop_frame)

text \<open>
  The wait returns true exactly when some poll of the schedule is reached and
  observes the expected membership.
\<close>

lemma wait_loop_iff:
  "fst (wait_loop e name b timeout start w) \<longleftrightarrow>
     (\<exists>k. reached e timeout start w k \<and> observed e name b (poll_world e w k))"
proof (induction e name b timeout start w rule: wait_loop.induct)
  case (1 e name b timeout start w)
  show ?case
  proof (cases "get_time w - start < timeout \<and> \<not> is_shutdown e w")
    case False
    then have l: "\<not> fst (wait_loop e name b timeout start w)"
      by (simp add: wait_loop_stop)
    have "\<not> reached e timeout start w k" for k
      using False by (cases k) auto
    with l show ?thesis by blast
  next
    case guard: True
    show ?thesis
    proof (cases "b = (name \<in> set (known_object_names e (calls w) (clock w)))")
      case True
      with guard have l: "fst (wait_loop e name b timeout start w)"
        by (simp add: wait_loop_found)
      have "reached e timeout start w 0 \<and> observed e name b (poll_world e w 0)"
        using guard True by (simp add: observed_def)
      with l show ?thesis by blast
    next
      case False
      with guard have eq: "wait_loop e name b timeout start w =
          wait_loop e name b timeout start (poll_step e w)"
        by (simp add: wait_loop_again)
      have ih: "fst (wait_loop e name b timeout start (poll_step e w)) \<longleftrightarrow>
          (\<exists>k. reached e timeout start (poll_step e w) k \<and>
               observed e name b (poll_world e (poll_step e w) k))"
        using "1.IH" [OF guard refl refl False] by (simp add: poll_step_def)
      have "(\<exists>k. reached e timeout start w k \<and> observed e name b (poll_world e w k)) \<longleftrightarrow>
          (\<exists>k. reached e timeout start (poll_step e w) k \<and>
               observed e name b (poll_world e (poll_step e w) k))" (is "?L \<longleftrightarrow> ?R")
      proof
        assume ?L
        then obtain k where k: "reached e timeout start w k" "observed e name b (poll_world e w k)"
          by blast
        from k(2) False obtain k' where "k = Suc k'"
          by (cases k) (auto simp: observed_def)
        with k show ?R by auto
      next
        assume ?R
        then obtain k where "reached e timeout start (poll_step e w) k"
          "observed e name b (poll_world e (poll_step e w) k)" by blast
        with guard have "reached e timeout start w (Suc k) \<and> observed e name b (poll_world e w (Suc k))"
          by simp
        then show ?L by blast
      qed
      with ih eq show ?thesis by simp
    qed
  qed
qed

lemma poll_step_clock: "clock w \<le> clock (poll_step e w)"
  by (simp add: poll_step_def sleep_def log_call_def)

lemma poll_world_clock: "clock w \<le> clock (poll_world e w k)"
proof (induction k arbitrary: w)
  case 0
  show ?case by simp
next
  case (Suc k)
  have "clock w \<le> clock (poll_step e w)" by (rule poll_step_clock)
  also have "\<dots> \<le> clock (poll_world e (poll_step e w) k)" by (rule Suc.IH)
  finally show ?case by simp
qed

lemma reached_no_shutdown:
  assumes "\<forall>k. \<not> is_shutdown e (poll_world e w k)"
  shows "reached e timeout start w k \<longleftrightarrow> get_time (poll_world e w k) - start < timeout"
  using assms
proof (induction k arbitrary: w)
  case 0
  from "0.prems" have "\<not> is_shutdown e (poll_world e w 0)" by blast
  then show ?case by simp
next
  case (Suc k)
  from Suc.prems have now: "\<not> is_shutdown e (poll_world e w 0)" by blast
  have later: "\<forall>j. \<not> is_shutdown e (poll_world e (poll_step e w) j)"
  proof
    fix j
    from Suc.prems have "\<not> is_shutdown e (poll_world e w (Suc j))" by blast
    then show "\<not> is_shutdown e (poll_world e (poll_step e w) j)" by simp
  qed
  have mono: "clock w \<le> clock (poll_world e (poll_step e w) k)"
    using poll_step_clock [of w e] poll_world_clock [of "poll_step e w" e k] by linarith
  from Suc.IH [OF later] now mono show ?case
    by (auto simp: get_time_def)
qed

lemma wait_fields:
  "link_pose (snd (wait_for_state_update e name b timeout w)) = link_pose w"
  "path_constraints (snd (wait_for_state_update e name b timeout w)) = path_constraints w"
  "max_velocity_scaling_factor (snd (wait_for_state_update e name b timeout w)) =
     max_velocity_scaling_factor w"
  "max_acceleration_scaling_factor (snd (wait_for_state_update e name b timeout w)) =
     max_acceleration_scaling_factor w"
  "cartesian_constraints (snd (wait_for_state_update e name b timeout w)) =
     cartesian_constraints w"
  "cylinder_pose (snd (wait_for_state_update e name b timeout w)) = cylinder_pose w"
  "start_pose (snd (wait_for_state_update e name b timeout w)) = start_pose w"
proof -
  obtain k c where "snd (wait_for_state_update e name b timeout w) =
      w\<lparr>clock := c, calls := calls w @ replicate k GetKnownObjectNames\<rparr>"
    using wait_frame by blast
  then show
    "link_pose (snd (wait_for_state_update e name b timeout w)) = link_pose w"
    "path_constraints (snd (wait_for_state_update e name b timeout w)) = path_constraints w"
    "max_velocity_scaling_factor (snd (wait_for_state_update e name b timeout w)) =
       max_velocity_scaling_factor w"
    "max_acceleration_scaling_factor (snd (wait_for_state_update e name b timeout w)) =
       max_acceleration_scaling_factor w"
    "cartesian_constraints (snd (wait_for_state_update e name b timeout w)) =
       cartesian_constraints w"
    "cylinder_pose (snd (wait_for_state_update e name b timeout w)) = cylinder_pose w"
    "start_pose (snd (wait_for_state_update e name b timeout w)) = start_pose w"
    by simp_all
qed

lemma wait_calls:
  "\<exists>k. calls (snd (wait_for_state_update e name b timeout w)) =
     calls w @ replicate k GetKnownObjectNames"
proof -
  obtain k c where "snd (wait_for_state_update e name b timeout w) =
      w\<lparr>clock := c, calls := calls w @ replicate k GetKnownObjectNames\<rparr>"
    using wait_frame by blast
  then have "calls (snd (wait_for_state_update e name b timeout w)) =
      calls w @ replicate k GetKnownObjectNames" by simp
  then show ?thesis by blast
qed

section \<open>What each operation leaves behind\<close>

lemma add_cylinder_shape:
  "\<exists>k c. snd (add_cylinder e timeout w) =
     w\<lparr>clock := c,
       calls := calls w @
         AddCylinder cylinder_name (cylinder_pose w) cylinder_height cylinder_radius #
         replicate k GetKnownObjectNames\<rparr>"
proof -
  let ?w1 = "log_call (AddCylinder cylinder_name (cylinder_pose w) cylinder_height cylinder_radius) w"
  obtain k c where "snd (wait_for_state_update e cylinder_name True timeout ?w1) =
      ?w1\<lparr>clock := c, calls := calls ?w1 @ replicate k GetKnownObjectNames\<rparr>"
    using wait_frame by blast
  then have "snd (add_cylinder e timeout w) =
      w\<lparr>clock := c,
        calls := calls w @
          AddCylinder cylinder_name (cylinder_pose w) cylinder_height cylinder_radius #
          replicate k GetKnownObjectNames\<rparr>"
    by (simp add: add_cylinder_def log_call_def)
  then show ?thesis by blast
qed

lemma remove_cylinder_shape:
  "\<exists>j k c. snd (remove_cylinder e timeout w) =
     w\<lparr>clock := c,
       calls := calls w @ replicate j GetKnownObjectNames @
         [RemoveAttachedObject cylinder_name, RemoveWorldObject cylinder_name] @
         replicate k GetKnownObjectNames\<rparr>"
proof -
  obtain j c1 where w1: "snd (wait_for_state_update e cylinder_name True timeout w) =
      w\<lparr>clock := c1, calls := calls w @ replicate j GetKnownObjectNames\<rparr>"
    using wait_frame by blast
  let ?w3 = "log_call (RemoveWorldObject cylinder_name)
      (log_call (RemoveAttachedObject cylinder_name)
        (snd (wait_for_state_update e cylinder_name True timeout w)))"
  obtain k c where "snd (wait_for_state_update e cylinder_name False timeout ?w3) =
      ?w3\<lparr>clock := c, calls := calls ?w3 @ replicate k GetKnownObjectNames\<rparr>"
    using wait_frame by blast
  then have "snd (remove_cylinder e timeout w) =
      w\<lparr>clock := c,
        calls := calls w @ replicate j GetKnownObjectNames @
          [RemoveAttachedObject cylinder_name, RemoveWorldObject cylinder_name] @
          replicate k GetKnownObjectNames\<rparr>"
    by (simp add: remove_cylinder_def Let_def w1 log_call_def)
  then show ?thesis by blast
qed

lemma add_hollow_cylinder_shape:
  "\<exists>k c. add_hollow_cylinder e w =
     w\<lparr>clock := c,
       calls := calls w @
         AddMesh hollow_cylinder_name (hollow_cylinder_pose w) (hollow_cylinder_filename e) #
         replicate k GetKnownObjectNames\<rparr>"
proof -
  let ?w1 = "log_call
      (AddMesh hollow_cylinder_name (hollow_cylinder_pose w) (hollow_cylinder_filename e)) w"
  obtain k c where "snd (wait_for_state_update e hollow_cylinder_name True 4 ?w1) =
      ?w1\<lparr>clock := c, calls := calls ?w1 @ replicate k GetKnownObjectNames\<rparr>"
    using wait_frame by blast
  then have "add_hollow_cylinder e w =
      w\<lparr>clock := c,
        calls := calls w @
          AddMesh hollow_cylinder_name (hollow_cylinder_pose w) (hollow_cylinder_filename e) #
          replicate k GetKnownObjectNames\<rparr>"
    by (simp add: add_hollow_cylinder_def Let_def log_call_def)
  then show ?thesis by blast
qed

lemma remove_hollow_cylinder_shape:
  "\<exists>k c. snd (remove_hollow_cylinder e w) =
     w\<lparr>clock := c,
       calls := calls w @ RemoveWorldObject hollow_cylinder_name #
         replicate k GetKnownObjectNames\<rparr>"
proof -
  let ?w1 = "log_call (RemoveWorldObject hollow_cylinder_name) w"
  obtain j c1 where w2: "snd (wait_for_state_update e hollow_cylinder_name False 4 ?w1) =
      ?w1\<lparr>clock := c1, calls := calls ?w1 @ replicate j GetKnownObjectNames\<rparr>"
    using wait_frame by blast
  let ?w2 = "snd (wait_for_state_update e hollow_cylinder_name False 4 ?w1)"
  obtain k c where "snd (wait_for_state_update e cylinder_name False 4 ?w2) =
      ?w2\<lparr>clock := c, calls := calls ?w2 @ replicate k GetKnownObjectNames\<rparr>"
    using wait_frame by blast
  then have "snd (remove_hollow_cylinder e w) =
      w\<lparr>clock := c,
        calls := calls w @ RemoveWorldObject hollow_cylinder_name #
          replicate (j + k) GetKnownObjectNames\<rparr>"
    unfolding remove_hollow_cylinder_def Let_def w2
    by (simp add: log_call_def replicate_add)
  then show ?thesis by blast
qed

text \<open>
  \<open>enable_probing\<close> and \<open>disable_probing\<close> in one equation each: the settings
  they leave and the calls they add, whatever the planning scene answers.
\<close>

lemma enable_probing_shape:
  "\<exists>i k c. enable_probing e w =
     (apply_constraints w)\<lparr>clock := c,
       calls := calls w @
         [AddMesh hollow_cylinder_name (hollow_cylinder_pose w) (hollow_cylinder_filename e)] @
         replicate i GetKnownObjectNames @
         [RemoveAttachedObject cylinder_name, RemoveWorldObject cylinder_name] @
         replicate k GetKnownObjectNames,
       max_velocity_scaling_factor := 1 / 100,
       max_acceleration_scaling_factor := 1 / 10\<rparr>"
proof -
  let ?w1 = "apply_constraints w"
  have w1: "calls ?w1 = calls w" "hollow_cylinder_pose ?w1 = hollow_cylinder_pose w"
    by (simp_all add: apply_constraints_def Let_def hollow_cylinder_pose_def)
  obtain i c2 where w2: "add_hollow_cylinder e ?w1 =
      ?w1\<lparr>clock := c2,
        calls := calls ?w1 @
          AddMesh hollow_cylinder_name (hollow_cylinder_pose ?w1) (hollow_cylinder_filename e) #
          replicate i GetKnownObjectNames\<rparr>"
    using add_hollow_cylinder_shape by blast
  let ?w2 = "add_hollow_cylinder e ?w1"
  obtain j k c where w3: "snd (remove_cylinder e 4 ?w2) =
      ?w2\<lparr>clock := c,
        calls := calls ?w2 @ replicate j GetKnownObjectNames @
          [RemoveAttachedObject cylinder_name, RemoveWorldObject cylinder_name] @
          replicate k GetKnownObjectNames\<rparr>"
    using remove_cylinder_shape by blast
  have "enable_probing e w =
     (apply_constraints w)\<lparr>clock := c,
       calls := calls w @
         [AddMesh hollow_cylinder_name (hollow_cylinder_pose w) (hollow_cylinder_filename e)] @
         replicate (i + j) GetKnownObjectNames @
         [RemoveAttachedObject cylinder_name, RemoveWorldObject cylinder_name] @
         replicate k GetKnownObjectNames,
       max_velocity_scaling_factor := 1 / 100,
       max_acceleration_scaling_factor := 1 / 10\<rparr>"
    unfolding enable_probing_def Let_def w3
      set_max_velocity_scaling_factor_def set_max_acceleration_scaling_factor_def
    by (simp add: w2 w1 replicate_add)
  then show ?thesis by blast
qed

lemma disable_probing_shape:
  "\<exists>i k c. disable_probing e w =
     w\<lparr>clock := c,
       calls := calls w @
         [AddCylinder cylinder_name (cylinder_pose w) cylinder_height cylinder_radius] @
         replicate i GetKnownObjectNames @
         [RemoveWorldObject hollow_cylinder_name] @
         replicate k GetKnownObjectNames,
       path_constraints := None,
       max_velocity_scaling_factor := 8 / 10,
       max_acceleration_scaling_factor := 1,
       cartesian_constraints := Some None\<rparr>"
proof -
  obtain i c1 where w1: "snd (add_cylinder e 10 w) =
      w\<lparr>clock := c1,
        calls := calls w @
          AddCylinder cylinder_name (cylinder_pose w) cylinder_height cylinder_radius #
          replicate i GetKnownObjectNames\<rparr>"
    using add_cylinder_shape by blast
  let ?w1 = "snd (add_cylinder e 10 w)"
  obtain k c where w2: "snd (remove_hollow_cylinder e ?w1) =
      ?w1\<lparr>clock := c,
        calls := calls ?w1 @ RemoveWorldObject hollow_cylinder_name #
          replicate k GetKnownObjectNames\<rparr>"
    using remove_hollow_cylinder_shape by blast
  have "disable_probing e w =
     w\<lparr>clock := c,
       calls := calls w @
         [AddCylinder cylinder_name (cylinder_pose w) cylinder_height cylinder_radius] @
         replicate i GetKnownObjectNames @
         [RemoveWorldObject hollow_cylinder_name] @
         replicate k GetKnownObjectNames,
       path_constraints := None,
       max_velocity_scaling_factor := 8 / 10,
       max_acceleration_scaling_factor := 1,
       cartesian_constraints := Some None\<rparr>"
    unfolding disable_probing_def Let_def w2 clear_constraints_def
      set_max_velocity_scaling_factor_def set_max_acceleration_scaling_factor_def
    by (simp add: w1)
  then show ?thesis by blast
qed

lemma filter_polls: "filter scene_change (replicate k GetKnownObjectNames) = []"
  by (induction k) simp_all

lemma apply_constraints_fields:
  "path_constraints (apply_constraints w) =
     Some \<lparr>orientation_constraints = [get_orientation_constraints w],
           position_constraints = [get_position_constraints]\<rparr>"
  "cartesian_constraints (apply_constraints w) =
     Some (Some \<lparr>orientation_constraints = [get_orientation_constraints w],
                 position_constraints = [get_position_constraints]\<rparr>)"
  "link_pose (apply_constraints w) = link_pose w"
  "cylinder_pose (apply_constraints w) = cylinder_pose w"
  "calls (apply_constraints w) = calls w"
  by (simp_all add: apply_constraints_def Let_def)

lemma enable_probing_fields:
  "path_constraints (enable_probing e w) = path_constraints (apply_constraints w)"
  "cartesian_constraints (enable_probing e w) = cartesian_constraints (apply_constraints w)"
  "max_velocity_scaling_factor (enable_probing e w) = 1 / 100"
  "max_acceleration_scaling_factor (enable_probing e w) = 1 / 10"
  "link_pose (enable_probing e w) = link_pose w"
  "cylinder_pose (enable_probing e w) = cylinder_pose w"
  "filter scene_change (calls (enable_probing e w)) =
     filter scene_change (calls w) @
     [AddMesh hollow_cylinder_name (hollow_cylinder_pose w) (hollow_cylinder_filename e),
      RemoveAttachedObject cylinder_name, RemoveWorldObject cylinder_name]"
proof -
  obtain i k c where "enable_probing e w =
     (apply_constraints w)\<lparr>clock := c,
       calls := calls w @
         [AddMesh hollow_cylinder_name (hollow_cylinder_pose w) (hollow_cylinder_filename e)] @
         replicate i GetKnownObjectNames @
         [RemoveAttachedObject cylinder_name, RemoveWorldObject cylinder_name] @
         replicate k GetKnownObjectNames,
       max_velocity_scaling_factor := 1 / 100,
       max_acceleration_scaling_factor := 1 / 10\<rparr>"
    using enable_probing_shape by blast
  then show
    "path_constraints (enable_probing e w) = path_constraints (apply_constraints w)"
    "cartesian_constraints (enable_probing e w) = cartesian_constraints (apply_constraints w)"
    "max_velocity_scaling_factor (enable_probing e w) = 1 / 100"
    "max_acceleration_scaling_factor (enable_probing e w) = 1 / 10"
    "link_pose (enable_probing e w) = link_pose w"
    "cylinder_pose (enable_probing e w) = cylinder_pose w"
    "filter scene_change (calls (enable_probing e w)) =
       filter scene_change (calls w) @
       [AddMesh hollow_cylinder_name (hollow_cylinder_pose w) (hollow_cylinder_filename e),
        RemoveAttachedObject cylinder_name, RemoveWorldObject cylinder_name]"
    by (simp_all add: apply_constraints_fields filter_polls)
qed

lemma disable_probing_fields:
  "path_constraints (disable_probing e w) = None"
  "cartesian_constraints (disable_probing e w) = Some None"
  "max_velocity_scaling_factor (disable_probing e w) = 8 / 10"
  "max_acceleration_scaling_factor (disable_probing e w) = 1"
proof -
  obtain i k c where "disable_probing e w =
     w\<lparr>clock := c,
       calls := calls w @
         [AddCylinder cylinder_name (cylinder_pose w) cylinder_height cylinder_radius] @
         replicate i GetKnownObjectNames @
         [RemoveWorldObject hollow_cylinder_name] @
         replicate k GetKnownObjectNames,
       path_constraints := None,
       max_velocity_scaling_factor := 8 / 10,
       max_acceleration_scaling_factor := 1,
       cartesian_constraints := Some None\<rparr>"
    using disable_probing_shape by blast
  then show
    "path_constraints (disable_probing e w) = None"
    "cartesian_constraints (disable_probing e w) = Some None"
    "max_velocity_scaling_factor (disable_probing e w) = 8 / 10"
    "max_acceleration_scaling_factor (disable_probing e w) = 1"
    by simp_all
qed

lemma hollow_cylinder_pose_cong:
  "cylinder_pose w' = cylinder_pose w \<Longrightarrow> hollow_cylinder_pose w' = hollow_cylinder_pose w"
  by (simp add: hollow_cylinder_pose_def)

lemma get_orientation_constraints_cong:
  "link_pose w' = link_pose w \<Longrightarrow> get_orientation_constraints w' = get_orientation_constraints w"
  by (simp add: get_orientation_constraints_def get_relative_orientation_def get_current_pose_def)

lemma init_cartesian_constraints:
  "cartesian_constraints (init e w) = cartesian_constraints w"
  by (simp add: init_def Let_def add_cylinder_def wait_fields log_call_def sleep_def)

text \<open>
  Where the attribute holds \<open>None\<close>, as \<open>__clear_constraints\<close> leaves it,
  \<open>plan_probing\<close> asks for a Cartesian path without path constraints and
  returns the planner's answer.
\<close>

lemma plan_probing_unconstrained:
  assumes "cartesian_constraints w = Some None"
  shows "plan_probing e z w =
    (Inr (cartesian_planner e (get_current_pose w []) (probing_waypoints w z) (1 / 100) 0 None),
     w\<lparr>calls := calls w @
         [PlanRequest, ComputeCartesianPath (probing_waypoints w z) (1 / 100) 0 None]\<rparr>)"
  using assms by (simp add: plan_probing_def Let_def log_call_def get_current_pose_def)

text \<open>The definitions that evaluate the model on a concrete state.\<close>

lemmas run_simps =
  init_def Let_def add_cylinder_def remove_cylinder_def add_hollow_cylinder_def
  remove_hollow_cylinder_def enable_probing_def disable_probing_def apply_constraints_def
  clear_constraints_def set_max_velocity_scaling_factor_def
  set_max_acceleration_scaling_factor_def wait_for_state_update_def wait_loop.simps
  sleep_def log_call_def get_time_def is_shutdown_def get_current_pose_def
  plan_probing_def probing_waypoints_def hollow_cylinder_pose_def
  hollow_cylinder_filename_def path_join_def cylinder_name_def hollow_cylinder_name_def
  prompt_env_def stuck_env_def base_world_def demo_pose_def identity_quaternion_def
  scene_of_def observed_def

text \<open>The wait never turns the clock back.\<close>

lemma wait_loop_clock:
  "clock w \<le> clock (snd (wait_loop e name b timeout start w))"
proof (induction e name b timeout start w rule: wait_loop.induct)
  case (1 e name b timeout start w)
  show ?case
  proof (cases "get_time w - start < timeout \<and> \<not> is_shutdown e w")
    case False
    then show ?thesis by (simp add: wait_loop_stop)
  next
    case guard: True
    show ?thesis
    proof (cases "b = (name \<in> set (known_object_names e (calls w) (clock w)))")
      case True
      with guard show ?thesis by (simp add: wait_loop_found log_call_def)
    next
      case False
      with guard have eq: "wait_loop e name b timeout start w =
          wait_loop e name b timeout start (poll_step e w)"
        by (simp add: wait_loop_again)
      have "clock (poll_step e w) \<le> clock (snd (wait_loop e name b timeout start (poll_step e w)))"
        using "1.IH" [OF guard refl refl False] by (simp add: poll_step_def)
      with poll_step_clock [of w e] show ?thesis
        unfolding eq by linarith
    qed
  qed
qed

lemma wait_clock:
  "clock w \<le> clock (snd (wait_for_state_update e name b timeout w))"
  unfolding wait_for_state_update_def by (rule wait_loop_clock)

section \<open>The claims\<close>

text \<open>
  C1, as the code has it. With a timeout of zero or less the wait makes no
  membership query at all and returns false. For every timeout, the wait
  returns true if and only if some poll that the loop reaches (time left and
  ROS not shut down, at that poll and at every poll before it) observes the
  expected membership. Where ROS is not shut down at any poll of the schedule,
  that is: if and only if some poll whose clock reading is less than \<open>timeout\<close>
  seconds after the start observes the expected membership.
\<close>

theorem wait_for_state_update_observes:
  "(timeout \<le> 0 \<longrightarrow> wait_for_state_update e name b timeout w = (False, w)) \<and>
   (fst (wait_for_state_update e name b timeout w) \<longleftrightarrow>
      (\<exists>k. reached e timeout (get_time w) w k \<and> observed e name b (poll_world e w k))) \<and>
   ((\<forall>k. \<not> is_shutdown e (poll_world e w k)) \<longrightarrow>
      (fst (wait_for_state_update e name b timeout w) \<longleftrightarrow>
         (\<exists>k. get_time (poll_world e w k) - get_time w < timeout \<and>
              observed e name b (poll_world e w k))))"
proof (intro conjI impI)
  assume "timeout \<le> 0"
  then have "\<not> (get_time w - get_time w < timeout \<and> \<not> is_shutdown e w)" by simp
  then show "wait_for_state_update e name b timeout w = (False, w)"
    unfolding wait_for_state_update_def by (rule wait_loop_stop)
next
  show "fst (wait_for_state_update e name b timeout w) \<longleftrightarrow>
      (\<exists>k. reached e timeout (get_time w) w k \<and> observed e name b (poll_world e w k))"
    unfolding wait_for_state_update_def by (rule wait_loop_iff)
next
  assume alive: "\<forall>k. \<not> is_shutdown e (poll_world e w k)"
  have "fst (wait_for_state_update e name b timeout w) \<longleftrightarrow>
      (\<exists>k. reached e timeout (get_time w) w k \<and> observed e name b (poll_world e w k))"
    unfolding wait_for_state_update_def by (rule wait_loop_iff)
  also have "\<dots> \<longleftrightarrow> (\<exists>k. get_time (poll_world e w k) - get_time w < timeout \<and>
      observed e name b (poll_world e w k))"
    by (simp add: reached_no_shutdown [OF alive])
  finally show "fst (wait_for_state_update e name b timeout w) \<longleftrightarrow>
      (\<exists>k. get_time (poll_world e w k) - get_time w < timeout \<and>
           observed e name b (poll_world e w k))" .
qed

text \<open>
  The theorem at work: before anything is added to the scene, a four-second
  wait for the solid cylinder to be unknown succeeds at its first poll, and the
  same wait with timeout zero returns false without a query.
\<close>

theorem wait_for_state_update_observes_witness:
  "(0::real) \<le> 0 \<and>
   wait_for_state_update prompt_env cylinder_name False 0 base_world = (False, base_world) \<and>
   (\<forall>k. \<not> is_shutdown prompt_env (poll_world prompt_env base_world k)) \<and>
   fst (wait_for_state_update prompt_env cylinder_name False 4 base_world) \<and>
   (\<exists>k. get_time (poll_world prompt_env base_world k) - get_time base_world < 4 \<and>
        observed prompt_env cylinder_name False (poll_world prompt_env base_world k))"
proof -
  have alive: "\<forall>k. \<not> is_shutdown prompt_env (poll_world prompt_env base_world k)"
    by (simp add: is_shutdown_def prompt_env_def)
  have zero: "wait_for_state_update prompt_env cylinder_name False 0 base_world = (False, base_world)"
    using wait_for_state_update_observes [of 0 prompt_env cylinder_name False base_world]
    by simp
  have seen: "get_time (poll_world prompt_env base_world 0) - get_time base_world < 4 \<and>
      observed prompt_env cylinder_name False (poll_world prompt_env base_world 0)"
    by (simp add: get_time_def observed_def prompt_env_def base_world_def scene_of_def)
  then have ex: "\<exists>k. get_time (poll_world prompt_env base_world k) - get_time base_world < 4 \<and>
      observed prompt_env cylinder_name False (poll_world prompt_env base_world k)"
    by blast
  with alive
    wait_for_state_update_observes [of 4 prompt_env cylinder_name False base_world]
  have "fst (wait_for_state_update prompt_env cylinder_name False 4 base_world)"
    by blast
  with alive zero ex show ?thesis by simp
qed

text \<open>
  C1 as stated fails for a timeout of zero: the claim wants at least one
  membership check, and the wait returns false with the call log untouched,
  although the expected state (the cylinder is not known) holds.
\<close>

theorem wait_zero_timeout_counterexample:
  "observed prompt_env cylinder_name False base_world \<and>
   \<not> fst (wait_for_state_update prompt_env cylinder_name False 0 base_world) \<and>
   GetKnownObjectNames \<notin> set (calls (snd (wait_for_state_update prompt_env cylinder_name False 0 base_world)))"
proof -
  have "\<not> (get_time base_world - get_time base_world < 0 \<and> \<not> is_shutdown prompt_env base_world)"
    by simp
  then have "wait_for_state_update prompt_env cylinder_name False 0 base_world = (False, base_world)"
    unfolding wait_for_state_update_def by (rule wait_loop_stop)
  then show ?thesis
    by (simp add: observed_def prompt_env_def base_world_def scene_of_def)
qed

text \<open>
  C2, as the code has it. The code inverts the first orientation by negating
  its \<open>w\<close> (the negated conjugate), so for two identity orientations the product
  is \<open>(0, 0, 0, -1)\<close>: the antipode of the identity quaternion, which stands for
  the same rotation.
\<close>

theorem get_relative_orientation_identity:
  assumes "orientation (get_current_pose w target_link_name) = identity_quaternion"
    and "orientation (get_current_pose w reference_link_name) = identity_quaternion"
  shows "get_relative_orientation w target_link_name reference_link_name =
    \<lparr>qx = 0, qy = 0, qz = 0, qw = - 1\<rparr>"
  using assms by (simp add: get_relative_orientation_def identity_quaternion_def)

theorem get_relative_orientation_identity_witness:
  "orientation (get_current_pose base_world ''axis_6'') = identity_quaternion \<and>
   orientation (get_current_pose base_world ''axis_0'') = identity_quaternion \<and>
   get_relative_orientation base_world ''axis_6'' ''axis_0'' =
     \<lparr>qx = 0, qy = 0, qz = 0, qw = - 1\<rparr>"
proof -
  have a: "orientation (get_current_pose base_world ''axis_6'') = identity_quaternion"
    by (simp add: get_current_pose_def base_world_def demo_pose_def)
  have b: "orientation (get_current_pose base_world ''axis_0'') = identity_quaternion"
    by (simp add: get_current_pose_def base_world_def demo_pose_def)
  from a b get_relative_orientation_identity [OF a b] show ?thesis by simp
qed

text \<open>
  C2 as stated fails: with both links at the identity orientation the result is
  not \<open>(0, 0, 0, 1)\<close>.
\<close>

theorem get_relative_orientation_counterexample:
  "orientation (get_current_pose base_world ''axis_6'') = \<lparr>qx = 0, qy = 0, qz = 0, qw = 1\<rparr> \<and>
   orientation (get_current_pose base_world ''axis_0'') = \<lparr>qx = 0, qy = 0, qz = 0, qw = 1\<rparr> \<and>
   get_relative_orientation base_world ''axis_6'' ''axis_0'' \<noteq>
     \<lparr>qx = 0, qy = 0, qz = 0, qw = 1\<rparr>"
  by (simp add: get_relative_orientation_def get_current_pose_def base_world_def
      demo_pose_def identity_quaternion_def)

text \<open>
  C3, as the code has it. \<open>enable_probing\<close> issues the hollow cylinder's
  \<open>add_mesh\<close> first and waits for the hollow cylinder with a timeout of four
  seconds; \<open>__add_hollow_cylinder\<close> returns when that wait has returned. Only
  then does \<open>__remove_cylinder\<close> start: it waits for the solid cylinder to be
  known and then issues the two removals. So the removals come after every
  membership query of the hollow cylinder's wait, and not before the time at
  which that wait returned. Nothing here depends on what the wait returned:
  the removals are issued whether or not a poll has seen the hollow cylinder.
\<close>

theorem enable_probing_call_order:
  "(let w1 = log_call (AddMesh hollow_cylinder_name (hollow_cylinder_pose w)
                         (hollow_cylinder_filename e)) (apply_constraints w);
        w2 = snd (wait_for_state_update e hollow_cylinder_name True 4 w1);
        w3 = snd (wait_for_state_update e cylinder_name True 4 w2)
    in calls w1 =
         calls w @
         [AddMesh hollow_cylinder_name (hollow_cylinder_pose w) (hollow_cylinder_filename e)] \<and>
       add_hollow_cylinder e (apply_constraints w) = w2 \<and>
       (\<exists>i. calls w2 = calls w1 @ replicate i GetKnownObjectNames) \<and>
       (\<exists>j. calls w3 = calls w2 @ replicate j GetKnownObjectNames) \<and>
       clock w1 \<le> clock w2 \<and> clock w2 \<le> clock w3 \<and>
       (\<exists>k. calls (enable_probing e w) =
            calls w3 @
            [RemoveAttachedObject cylinder_name, RemoveWorldObject cylinder_name] @
            replicate k GetKnownObjectNames))"
proof -
  let ?w0 = "apply_constraints w"
  let ?w1 = "log_call (AddMesh hollow_cylinder_name (hollow_cylinder_pose w)
      (hollow_cylinder_filename e)) ?w0"
  let ?w2 = "snd (wait_for_state_update e hollow_cylinder_name True 4 ?w1)"
  let ?w3 = "snd (wait_for_state_update e cylinder_name True 4 ?w2)"
  let ?w4 = "log_call (RemoveWorldObject cylinder_name)
      (log_call (RemoveAttachedObject cylinder_name) ?w3)"
  have pose: "hollow_cylinder_pose ?w0 = hollow_cylinder_pose w"
    by (rule hollow_cylinder_pose_cong) (rule apply_constraints_fields)
  have c1: "calls ?w1 =
      calls w @
      [AddMesh hollow_cylinder_name (hollow_cylinder_pose w) (hollow_cylinder_filename e)]"
    by (simp add: log_call_def apply_constraints_fields)
  have hollow: "add_hollow_cylinder e ?w0 = ?w2"
    by (simp add: add_hollow_cylinder_def Let_def pose)
  have c2: "\<exists>i. calls ?w2 = calls ?w1 @ replicate i GetKnownObjectNames"
    by (rule wait_calls)
  have c3: "\<exists>j. calls ?w3 = calls ?w2 @ replicate j GetKnownObjectNames"
    by (rule wait_calls)
  have t2: "clock ?w1 \<le> clock ?w2" by (rule wait_clock)
  have t3: "clock ?w2 \<le> clock ?w3" by (rule wait_clock)
  obtain k where "calls (snd (wait_for_state_update e cylinder_name False 4 ?w4)) =
      calls ?w4 @ replicate k GetKnownObjectNames"
    using wait_calls by blast
  then have "calls (enable_probing e w) =
      calls ?w3 @
      [RemoveAttachedObject cylinder_name, RemoveWorldObject cylinder_name] @
      replicate k GetKnownObjectNames"
    unfolding enable_probing_def Let_def hollow remove_cylinder_def
      set_max_velocity_scaling_factor_def set_max_acceleration_scaling_factor_def
    by (simp add: log_call_def)
  then have c4: "\<exists>k. calls (enable_probing e w) =
      calls ?w3 @
      [RemoveAttachedObject cylinder_name, RemoveWorldObject cylinder_name] @
      replicate k GetKnownObjectNames"
    by blast
  from c1 hollow c2 c3 t2 t3 c4 show ?thesis
    unfolding Let_def by (intro conjI)
qed

text \<open>
  C3 as stated fails: in a scene that only ever reports the solid cylinder, the
  wait for the hollow cylinder returns false, and \<open>enable_probing\<close> removes the
  solid cylinder all the same.
\<close>

theorem enable_probing_unconfirmed_counterexample:
  "\<not> fst (wait_for_state_update (stuck_env [cylinder_name]) hollow_cylinder_name True 4
          (log_call (AddMesh hollow_cylinder_name (hollow_cylinder_pose base_world)
                       (hollow_cylinder_filename (stuck_env [cylinder_name])))
             (apply_constraints base_world))) \<and>
   calls (enable_probing (stuck_env [cylinder_name]) base_world) =
     [AddMesh hollow_cylinder_name (hollow_cylinder_pose base_world)
        (hollow_cylinder_filename (stuck_env [cylinder_name])),
      GetKnownObjectNames, GetKnownObjectNames,
      RemoveAttachedObject cylinder_name, RemoveWorldObject cylinder_name,
      GetKnownObjectNames]"
  by (simp add: run_simps)

text \<open>
  C4, as the code has it. The class keeps no probing state and raises nothing:
  a second \<open>enable_probing\<close> issues the hollow add and the solid removals a
  second time and applies the same constraints and scaling factors again.
\<close>

theorem enable_probing_twice:
  "filter scene_change (calls (enable_probing e (enable_probing e w))) =
     filter scene_change (calls w) @
     [AddMesh hollow_cylinder_name (hollow_cylinder_pose w) (hollow_cylinder_filename e),
      RemoveAttachedObject cylinder_name, RemoveWorldObject cylinder_name,
      AddMesh hollow_cylinder_name (hollow_cylinder_pose w) (hollow_cylinder_filename e),
      RemoveAttachedObject cylinder_name, RemoveWorldObject cylinder_name] \<and>
   path_constraints (enable_probing e (enable_probing e w)) =
     path_constraints (enable_probing e w) \<and>
   cartesian_constraints (enable_probing e (enable_probing e w)) =
     cartesian_constraints (enable_probing e w) \<and>
   max_velocity_scaling_factor (enable_probing e (enable_probing e w)) = 1 / 100 \<and>
   max_acceleration_scaling_factor (enable_probing e (enable_probing e w)) = 1 / 10"
proof -
  let ?w1 = "enable_probing e w"
  have pose: "hollow_cylinder_pose ?w1 = hollow_cylinder_pose w"
    by (rule hollow_cylinder_pose_cong) (rule enable_probing_fields)
  have oc: "get_orientation_constraints ?w1 = get_orientation_constraints w"
    by (rule get_orientation_constraints_cong) (rule enable_probing_fields)
  show ?thesis
    by (simp add: enable_probing_fields apply_constraints_fields pose oc)
qed

text \<open>
  C4 as stated fails: two calls of \<open>enable_probing\<close> in a row, in a scene that
  follows every call at once, add the hollow cylinder twice and remove the solid
  cylinder twice; nothing is rejected.
\<close>

theorem enable_probing_twice_counterexample:
  "filter scene_change (calls (enable_probing prompt_env (enable_probing prompt_env base_world))) =
     [AddMesh hollow_cylinder_name (hollow_cylinder_pose base_world)
        (hollow_cylinder_filename prompt_env),
      RemoveAttachedObject cylinder_name, RemoveWorldObject cylinder_name,
      AddMesh hollow_cylinder_name (hollow_cylinder_pose base_world)
        (hollow_cylinder_filename prompt_env),
      RemoveAttachedObject cylinder_name, RemoveWorldObject cylinder_name]"
proof -
  let ?w1 = "enable_probing prompt_env base_world"
  have pose: "hollow_cylinder_pose ?w1 = hollow_cylinder_pose base_world"
    by (rule hollow_cylinder_pose_cong) (rule enable_probing_fields)
  have "calls base_world = []" by (simp add: base_world_def)
  then show ?thesis
    by (simp add: enable_probing_fields pose)
qed

text \<open>
  C5, as the code has it. After \<open>enable_probing\<close> and then \<open>disable_probing\<close>
  the velocity scaling factor is 0.8 and the acceleration scaling factor is 1,
  whatever they were before, and no path constraint is active: the move group's
  are cleared and the attribute holds \<open>None\<close>. So the pair gives back the
  scaling factors it started from exactly when these were 0.8 and 1.
\<close>

theorem enable_then_disable_probing:
  "max_velocity_scaling_factor (disable_probing e (enable_probing e w)) = 8 / 10 \<and>
   max_acceleration_scaling_factor (disable_probing e (enable_probing e w)) = 1 \<and>
   path_constraints (disable_probing e (enable_probing e w)) = None \<and>
   cartesian_constraints (disable_probing e (enable_probing e w)) = Some None \<and>
   ((max_velocity_scaling_factor (disable_probing e (enable_probing e w)) =
       max_velocity_scaling_factor w \<and>
     max_acceleration_scaling_factor (disable_probing e (enable_probing e w)) =
       max_acceleration_scaling_factor w) \<longleftrightarrow>
    (max_velocity_scaling_factor w = 8 / 10 \<and> max_acceleration_scaling_factor w = 1))"
proof -
  have v: "max_velocity_scaling_factor (disable_probing e (enable_probing e w)) = 8 / 10"
    by (rule disable_probing_fields)
  have a: "max_acceleration_scaling_factor (disable_probing e (enable_probing e w)) = 1"
    by (rule disable_probing_fields)
  have p: "path_constraints (disable_probing e (enable_probing e w)) = None"
    by (rule disable_probing_fields)
  have c: "cartesian_constraints (disable_probing e (enable_probing e w)) = Some None"
    by (rule disable_probing_fields)
  show ?thesis unfolding v a p c by auto
qed

text \<open>
  C5 as stated fails: started with a velocity scaling factor of one half, the
  pair does not restore it.
\<close>

theorem enable_then_disable_counterexample:
  "max_velocity_scaling_factor base_world = 1 / 2 \<and>
   max_velocity_scaling_factor
     (disable_probing prompt_env (enable_probing prompt_env base_world)) \<noteq>
   max_velocity_scaling_factor base_world"
  by (simp add: disable_probing_fields base_world_def)

text \<open>
  C6. From an end-effector pose of height 0.30, \<open>plan_probing(-0.06)\<close> builds a
  waypoint list of exactly one pose: the current pose with its height set to
  0.24 and everything else, \<open>x\<close> and \<open>y\<close> included, as it is. Where the
  attribute \<open>cartesian_constraints\<close> exists, this list is what the Cartesian path
  is requested for.
\<close>

theorem plan_probing_waypoints:
  assumes "pz (position (get_current_pose w [])) = 3 / 10"
  shows "probing_waypoints w (- (6 / 100)) =
      [(get_current_pose w [])
         \<lparr>position := (position (get_current_pose w []))\<lparr>pz := 24 / 100\<rparr>\<rparr>] \<and>
    (\<forall>c. cartesian_constraints w = Some c \<longrightarrow>
       calls (snd (plan_probing e (- (6 / 100)) w)) =
         calls w @
         [PlanRequest,
          ComputeCartesianPath
            [(get_current_pose w [])
               \<lparr>position := (position (get_current_pose w []))\<lparr>pz := 24 / 100\<rparr>\<rparr>]
            (1 / 100) 0 c])"
proof -
  have wp: "probing_waypoints w (- (6 / 100)) =
      [(get_current_pose w [])
         \<lparr>position := (position (get_current_pose w []))\<lparr>pz := 24 / 100\<rparr>\<rparr>]"
    using assms by (simp add: probing_waypoints_def Let_def)
  then show ?thesis
    by (simp add: plan_probing_def Let_def log_call_def)
qed

theorem plan_probing_waypoints_witness:
  "pz (position (get_current_pose (clear_constraints base_world) [])) = 3 / 10 \<and>
   probing_waypoints (clear_constraints base_world) (- (6 / 100)) =
     [\<lparr>position = \<lparr>px = 1 / 4, py = 0, pz = 24 / 100\<rparr>,
       orientation = identity_quaternion\<rparr>] \<and>
   cartesian_constraints (clear_constraints base_world) = Some None \<and>
   calls (snd (plan_probing prompt_env (- (6 / 100)) (clear_constraints base_world))) =
     [PlanRequest,
      ComputeCartesianPath
        [\<lparr>position = \<lparr>px = 1 / 4, py = 0, pz = 24 / 100\<rparr>,
          orientation = identity_quaternion\<rparr>]
        (1 / 100) 0 None]"
proof -
  let ?w = "clear_constraints base_world"
  have z: "pz (position (get_current_pose ?w [])) = 3 / 10"
    by (simp add: clear_constraints_def base_world_def get_current_pose_def demo_pose_def)
  have c: "cartesian_constraints ?w = Some None"
    by (simp add: clear_constraints_def)
  have p: "get_current_pose ?w [] =
      \<lparr>position = \<lparr>px = 1 / 4, py = 0, pz = 3 / 10\<rparr>, orientation = identity_quaternion\<rparr>"
    by (simp add: clear_constraints_def base_world_def get_current_pose_def demo_pose_def)
  have e: "calls ?w = []"
    by (simp add: clear_constraints_def base_world_def)
  from plan_probing_waypoints [OF z, of prompt_env] z c show ?thesis
    by (simp add: p e)
qed





text \<open>
  C9. \<open>__init__\<close> never assigns \<open>cartesian_constraints\<close>: on an object whose
  base class has not defined the attribute, \<open>plan_probing\<close> called before any
  \<open>enable_probing\<close> or \<open>disable_probing\<close> raises \<open>AttributeError\<close> while it
  evaluates the arguments of \<open>compute_cartesian_path\<close>, and no Cartesian path
  is requested.
\<close>

theorem plan_probing_fresh_object:
  assumes "cartesian_constraints w = None"
  shows "fst (plan_probing e z (init e w)) = Inl AttributeError \<and>
    calls (snd (plan_probing e z (init e w))) = calls (init e w) @ [PlanRequest]"
  using assms
  by (simp add: plan_probing_def Let_def log_call_def init_cartesian_constraints)

theorem plan_probing_fresh_object_witness:
  "cartesian_constraints base_world = None \<and>
   fst (plan_probing prompt_env (- (6 / 100)) (init prompt_env base_world)) =
     Inl AttributeError \<and>
   calls (snd (plan_probing prompt_env (- (6 / 100)) (init prompt_env base_world))) =
     calls (init prompt_env base_world) @ [PlanRequest]"
proof -
  have a: "cartesian_constraints base_world = None"
    by (simp add: base_world_def)
  from a plan_probing_fresh_object [OF a] show ?thesis by simp
qed

text \<open>
  C10. Whatever the planning scene answers, and so also when the wait for the
  hollow cylinder and the waits of the solid cylinder's removal return false,
  \<open>enable_probing\<close> returns with the path constraints applied (the orientation
  and the position constraint, in the move group and in the attribute), the
  velocity scaling factor 0.01 and the acceleration scaling factor 0.1.
\<close>

theorem enable_probing_unconditional:
  "path_constraints (enable_probing e w) =
     Some \<lparr>orientation_constraints = [get_orientation_constraints w],
           position_constraints = [get_position_constraints]\<rparr> \<and>
   cartesian_constraints (enable_probing e w) =
     Some (Some \<lparr>orientation_constraints = [get_orientation_constraints w],
                 position_constraints = [get_position_constraints]\<rparr>) \<and>
   max_velocity_scaling_factor (enable_probing e w) = 1 / 100 \<and>
   max_acceleration_scaling_factor (enable_probing e w) = 1 / 10"
  by (simp add: enable_probing_fields apply_constraints_fields)

text \<open>
  An instance: the scene only ever reports the solid cylinder, so neither the
  hollow cylinder's arrival nor the solid cylinder's removal is confirmed, and
  the settings are applied.
\<close>

theorem enable_probing_unconditional_witness:
  "\<not> fst (wait_for_state_update (stuck_env [cylinder_name]) hollow_cylinder_name True 4
          (log_call (AddMesh hollow_cylinder_name (hollow_cylinder_pose base_world)
                       (hollow_cylinder_filename (stuck_env [cylinder_name])))
             (apply_constraints base_world))) \<and>
   \<not> fst (remove_cylinder (stuck_env [cylinder_name]) 4
          (add_hollow_cylinder (stuck_env [cylinder_name]) (apply_constraints base_world))) \<and>
   path_constraints (enable_probing (stuck_env [cylinder_name]) base_world) =
     Some \<lparr>orientation_constraints = [get_orientation_constraints base_world],
           position_constraints = [get_position_constraints]\<rparr> \<and>
   max_velocity_scaling_factor (enable_probing (stuck_env [cylinder_name]) base_world) = 1 / 100 \<and>
   max_acceleration_scaling_factor (enable_probing (stuck_env [cylinder_name]) base_world) = 1 / 10"
proof -
  have "\<not> fst (wait_for_state_update (stuck_env [cylinder_name]) hollow_cylinder_name True 4
          (log_call (AddMesh hollow_cylinder_name (hollow_cylinder_pose base_world)
                       (hollow_cylinder_filename (stuck_env [cylinder_name])))
             (apply_constraints base_world)))"
    by (simp add: run_simps)
  moreover have "\<not> fst (remove_cylinder (stuck_env [cylinder_name]) 4
          (add_hollow_cylinder (stuck_env [cylinder_name]) (apply_constraints base_world)))"
    by (simp add: run_simps)
  ultimately show ?thesis
    using enable_probing_unconditional [of "stuck_env [cylinder_name]" base_world]
    by simp
qed

end
